theory Spec2Isabelle
  imports Main "HOL-Library.Word"
begin

unbundle bit_operations_syntax

section \<open>Data model\<close>

text \<open>
  The QA band is a two-dimensional numpy array of integers: an integer type of a fixed
  width, signed or unsigned, and the rows of cells. Every cell of an array lies in the
  range of its type (\<open>wf_array\<close>). A mask produced by a comparison is an array of
  booleans; \<open>astype(int)\<close> turns it into an array of 0 and 1, given here by its cells.
\<close>

datatype dtype = Int8 | Int16 | Int32 | Int64 | UInt8 | UInt16 | UInt32 | UInt64

fun dtype_min :: "dtype \<Rightarrow> int" where
  "dtype_min Int8 = - 128"
| "dtype_min Int16 = - 32768"
| "dtype_min Int32 = - 2147483648"
| "dtype_min Int64 = - 9223372036854775808"
| "dtype_min UInt8 = 0"
| "dtype_min UInt16 = 0"
| "dtype_min UInt32 = 0"
| "dtype_min UInt64 = 0"

fun dtype_max :: "dtype \<Rightarrow> int" where
  "dtype_max Int8 = 127"
| "dtype_max Int16 = 32767"
| "dtype_max Int32 = 2147483647"
| "dtype_max Int64 = 9223372036854775807"
| "dtype_max UInt8 = 255"
| "dtype_max UInt16 = 65535"
| "dtype_max UInt32 = 4294967295"
| "dtype_max UInt64 = 18446744073709551615"

definition fits :: "dtype \<Rightarrow> int \<Rightarrow> bool" where
  "fits d k = (dtype_min d \<le> k \<and> k \<le> dtype_max d)"

record ndarray =
  dtype :: dtype
  cells :: "int list list"

definition wf_array :: "ndarray \<Rightarrow> bool" where
  "wf_array a = list_all (list_all (fits (dtype a))) (cells a)"

type_synonym bmask = "bool list list"
type_synonym imask = "int list list"

datatype error = ValueError | KeyError | OverflowError | PyException string

text \<open>The name of the exception class that an error value stands for.\<close>

fun exception_class :: "error \<Rightarrow> string" where
  "exception_class ValueError = ''ValueError''"
| "exception_class KeyError = ''KeyError''"
| "exception_class OverflowError = ''OverflowError''"
| "exception_class (PyException msg) = ''Exception''"

text \<open>The class \<open>LandsatConfidence\<close>.\<close>

definition high :: int where "high = 3"
definition medium :: int where "medium = 2"
definition low :: int where "low = 1"
definition undefined_conf :: int where "undefined_conf = 0"
definition none :: int where "none = - 1"

section \<open>Array operations\<close>

text \<open>
  The operations of numpy that the maskers use, by the rules of numpy 2. In
  \<open>array & k\<close> with a Python integer \<open>k\<close>, the integer takes the type of the array
  and OverflowError is raised when it is out of the range of that type; the result has
  the type of the array. A comparison of an array with a Python integer is exact, whatever
  the integer is, and gives an array of booleans.
\<close>

definition map2d :: "('a \<Rightarrow> 'b) \<Rightarrow> 'a list list \<Rightarrow> 'b list list" where
  "map2d f = map (map f)"

definition bitwise_and :: "ndarray \<Rightarrow> int \<Rightarrow> error + ndarray" where
  "bitwise_and a k =
     (if fits (dtype a) k then Inr (a\<lparr>cells := map2d (\<lambda>c. c AND k) (cells a)\<rparr>)
      else Inl OverflowError)"

definition equal_int :: "ndarray \<Rightarrow> int \<Rightarrow> bmask" where
  "equal_int a k = map2d (\<lambda>c. c = k) (cells a)"

definition greater_equal_int :: "ndarray \<Rightarrow> int \<Rightarrow> bmask" where
  "greater_equal_int a k = map2d (\<lambda>c. c \<ge> k) (cells a)"

definition less_int :: "ndarray \<Rightarrow> int \<Rightarrow> bmask" where
  "less_int a k = map2d (\<lambda>c. c < k) (cells a)"

text \<open>\<open>mask.astype(int)\<close> on a boolean array.\<close>

definition astype_int :: "bmask \<Rightarrow> imask" where
  "astype_int = map2d (\<lambda>b. if b then 1 else 0)"

text \<open>\<open>np.logical_or\<close> and \<open>np.logical_and\<close> on two arrays of one shape.\<close>

definition logical_or :: "bmask \<Rightarrow> bmask \<Rightarrow> bmask" where
  "logical_or a b = map2 (map2 (\<or>)) a b"

definition logical_and :: "bmask \<Rightarrow> bmask \<Rightarrow> bmask" where
  "logical_and a b = map2 (map2 (\<and>)) a b"

text \<open>Python's \<open>a << b\<close> on integers: a negative shift count raises ValueError.\<close>

definition shl :: "int \<Rightarrow> int \<Rightarrow> error + int" where
  "shl a b = (if b < 0 then Inl ValueError else Inr (push_bit (nat b) a))"

definition map_result :: "('a \<Rightarrow> 'b) \<Rightarrow> error + 'a \<Rightarrow> error + 'b" where
  "map_result f r = (case r of Inl e \<Rightarrow> Inl e | Inr x \<Rightarrow> Inr (f x))"

section \<open>Masker\<close>

text \<open>
  Python's \<open>int(s, 2)\<close> on a string. A string is a list of code points below 256.
  Whitespace around the number is dropped: the ASCII whitespace and, of the code points
  from 128 on, the two that Unicode counts as whitespace, 0x85 and 0xA0. Then come an
  optional sign, an optional prefix \<open>0b\<close> or \<open>0B\<close> (after which one underscore may
  stand), and binary digits with single underscores between them; below 256 the only
  decimal digits are the ASCII ones. Anything else raises ValueError.
\<close>

definition py_isspace :: "char \<Rightarrow> bool" where
  "py_isspace c =
     (c \<in> set [CHR 0x09, CHR 0x0A, CHR 0x0B, CHR 0x0C, CHR 0x0D, CHR 0x20, CHR 0x85,
        CHR 0xA0])"

fun scan_digits :: "int \<Rightarrow> bool \<Rightarrow> string \<Rightarrow> (int \<times> string) option" where
  "scan_digits acc prev_us [] = (if prev_us then None else Some (acc, []))"
| "scan_digits acc prev_us (c # cs) =
     (if c = CHR ''_'' then (if prev_us then None else scan_digits acc True cs)
      else if c = CHR ''0'' then scan_digits (2 * acc) False cs
      else if c = CHR ''1'' then scan_digits (2 * acc + 1) False cs
      else if prev_us then None else Some (acc, c # cs))"

definition strip_sign :: "string \<Rightarrow> int \<times> string" where
  "strip_sign s =
     (case s of
        [] \<Rightarrow> (1, s)
      | c # r \<Rightarrow> if c = CHR ''+'' then (1, r) else if c = CHR ''-'' then (- 1, r) else (1, s))"

definition strip_0b :: "string \<Rightarrow> string" where
  "strip_0b s =
     (case s of
        a # b # r \<Rightarrow>
          if a = CHR ''0'' \<and> (b = CHR ''b'' \<or> b = CHR ''B'')
          then (case r of [] \<Rightarrow> r | u # r' \<Rightarrow> if u = CHR ''_'' then r' else r)
          else s
      | _ \<Rightarrow> s)"

definition int_base2 :: "string \<Rightarrow> error + int" where
  "int_base2 s =
     (case strip_sign (dropWhile py_isspace s) of
        (sign, s2) \<Rightarrow>
          (case strip_0b s2 of
             [] \<Rightarrow> Inl ValueError
           | d # ds \<Rightarrow>
               if d \<noteq> CHR ''0'' \<and> d \<noteq> CHR ''1'' then Inl ValueError
               else (case scan_digits 0 False (d # ds) of
                       None \<Rightarrow> Inl ValueError
                     | Some (z, rest) \<Rightarrow>
                         if dropWhile py_isspace rest = [] then Inr (sign * z)
                         else Inl ValueError)))"

text \<open>The \<open>value\<close> argument of \<open>Masker.get_mask\<close> is an integer or a string.\<close>

datatype target = IntV int | StrV string

text \<open>
  \<open>Masker.get_mask\<close>. The string \<open>'1' * bit_len\<close> is empty when \<open>bit_len\<close> is
  zero or negative, and \<open>int('', 2)\<close> raises ValueError.
\<close>

definition get_mask :: "ndarray \<Rightarrow> int \<Rightarrow> int \<Rightarrow> target \<Rightarrow> error + imask" where
  "get_mask band_data bit_pos bit_len val =
     (case int_base2 (replicate (nat bit_len) CHR ''1'') of
        Inl e \<Rightarrow> Inl e
      | Inr bitlen \<Rightarrow>
          (case (case val of StrV s \<Rightarrow> int_base2 s | IntV v \<Rightarrow> Inr v) of
             Inl e \<Rightarrow> Inl e
           | Inr v \<Rightarrow>
               (case shl bitlen bit_pos of
                  Inl e \<Rightarrow> Inl e
                | Inr pos_value \<Rightarrow>
                    (case shl v bit_pos of
                       Inl e \<Rightarrow> Inl e
                     | Inr con_value \<Rightarrow>
                         (case bitwise_and band_data pos_value of
                            Inl e \<Rightarrow> Inl e
                          | Inr masked \<Rightarrow>
                              Inr (astype_int (equal_int masked con_value)))))))"

section \<open>LandsatMasker\<close>

text \<open>The private method \<open>LandsatMasker.__get_mask\<close>; it returns the boolean array.\<close>

definition LandsatMasker_get_mask ::
  "ndarray \<Rightarrow> int \<Rightarrow> int \<Rightarrow> int \<Rightarrow> bool \<Rightarrow> error + bmask" where
  "LandsatMasker_get_mask band_data bit_loc bit_len val cumulative =
     (case shl bit_len bit_loc of
        Inl e \<Rightarrow> Inl e
      | Inr pos_value \<Rightarrow>
          (case shl val bit_loc of
             Inl e \<Rightarrow> Inl e
           | Inr con_value \<Rightarrow>
               (case bitwise_and band_data pos_value of
                  Inl e \<Rightarrow> Inl e
                | Inr masked \<Rightarrow>
                    (if cumulative then Inr (greater_equal_int masked con_value)
                     else Inr (equal_int masked con_value)))))"

definition get_cloud_mask :: "ndarray \<Rightarrow> int \<Rightarrow> bool \<Rightarrow> error + imask" where
  "get_cloud_mask band_data conf cumulative =
     map_result astype_int (LandsatMasker_get_mask band_data 14 3 conf cumulative)"

definition get_cirrus_mask :: "ndarray \<Rightarrow> int \<Rightarrow> bool \<Rightarrow> error + imask" where
  "get_cirrus_mask band_data conf cumulative =
     map_result astype_int (LandsatMasker_get_mask band_data 12 3 conf cumulative)"

definition get_veg_mask :: "ndarray \<Rightarrow> int \<Rightarrow> bool \<Rightarrow> error + imask" where
  "get_veg_mask band_data conf cumulative =
     map_result astype_int (LandsatMasker_get_mask band_data 8 3 conf cumulative)"

definition get_water_mask :: "ndarray \<Rightarrow> int \<Rightarrow> bool \<Rightarrow> error + imask" where
  "get_water_mask band_data conf cumulative =
     map_result astype_int (LandsatMasker_get_mask band_data 4 3 conf cumulative)"

definition get_snow_mask :: "ndarray \<Rightarrow> int \<Rightarrow> bool \<Rightarrow> error + imask" where
  "get_snow_mask band_data conf cumulative =
     map_result astype_int (LandsatMasker_get_mask band_data 10 3 conf cumulative)"

text \<open>\<open>get_fill_mask\<close> returns the boolean array itself, without \<open>astype(int)\<close>.\<close>

definition get_fill_mask :: "ndarray \<Rightarrow> error + bmask" where
  "get_fill_mask band_data = LandsatMasker_get_mask band_data 0 1 1 False"

text \<open>
  \<open>get_multi_mask\<close>: the loop over the five tasks, each a triple of bit location,
  level and cumulative flag, folding every mask into \<open>final_mask\<close>.
\<close>

fun multi_loop ::
  "ndarray \<Rightarrow> bool \<Rightarrow> (int \<times> int \<times> bool) list \<Rightarrow> bmask \<Rightarrow> error + bmask" where
  "multi_loop band_data inclusive [] final_mask = Inr final_mask"
| "multi_loop band_data inclusive (task # tasks) final_mask =
     (case LandsatMasker_get_mask band_data (fst task) 3 (fst (snd task)) (snd (snd task)) of
        Inl e \<Rightarrow> Inl e
      | Inr msk \<Rightarrow>
          multi_loop band_data inclusive tasks
            (if inclusive then logical_or final_mask msk
             else logical_and final_mask msk))"

definition get_multi_mask ::
  "ndarray \<Rightarrow> int \<Rightarrow> bool \<Rightarrow> int \<Rightarrow> bool \<Rightarrow> int \<Rightarrow> bool \<Rightarrow> int \<Rightarrow> bool \<Rightarrow> int \<Rightarrow> bool
     \<Rightarrow> bool \<Rightarrow> error + imask" where
  "get_multi_mask band_data cloud cloud_cum cirrus cirrus_cum snow snow_cum veg veg_cum
       water water_cum inclusive =
     map_result astype_int
       (multi_loop band_data inclusive
          [(8, veg, veg_cum), (10, snow, snow_cum), (12, cirrus, cirrus_cum),
           (14, cloud, cloud_cum), (4, water, water_cum)]
          (if inclusive then less_int band_data 0
           else greater_equal_int band_data 0))"

section \<open>ModisMasker\<close>

text \<open>\<open>get_qa_mask\<close>; \<open>astype(int)\<close> on the integer mask keeps its cells.\<close>

definition get_qa_mask :: "ndarray \<Rightarrow> target \<Rightarrow> error + imask" where
  "get_qa_mask band_data quality = get_mask band_data 0 2 quality"

section \<open>The command line\<close>

text \<open>
  The parsed arguments of \<open>main\<close>; an option that is not given is \<open>None\<close>.
  Reading the input file and writing the output file are left to the raster library:
  \<open>main\<close> is modelled as the mask it hands to \<open>save_tif\<close>, from the arguments
  and the band that the masker has loaded from the input file.
\<close>

record args =
  source :: "string option"
  input_path :: "string option"
  output_path :: "string option"
  confidence :: "string option"
  target :: "string option"
  quality :: "string option"

text \<open>\<open>'%s' % x\<close> for an argument that is a string or \<open>None\<close>.\<close>

definition fmt_s :: "string option \<Rightarrow> string" where
  "fmt_s x = (case x of None \<Rightarrow> ''None'' | Some s \<Rightarrow> s)"

definition conf_value :: "string \<rightharpoonup> int" where
  "conf_value = map_of [(''high'', high), (''medium'', medium), (''low'', low),
     (''undefined'', undefined_conf), (''none'', none)]"

definition quality_value :: "string \<rightharpoonup> int" where
  "quality_value = map_of [(''high'', 0), (''medium'', 1), (''low'', 2), (''low_cloud'', 3)]"

text \<open>Subscripting a dictionary with a command-line option: a missing key raises KeyError.\<close>

definition subscript :: "(string \<rightharpoonup> int) \<Rightarrow> string option \<Rightarrow> error + int" where
  "subscript d k =
     (case k of
        None \<Rightarrow> Inl KeyError
      | Some s \<Rightarrow> (case d s of None \<Rightarrow> Inl KeyError | Some v \<Rightarrow> Inr v))"

definition main :: "args \<Rightarrow> ndarray \<Rightarrow> error + imask" where
  "main a band_data =
     (if source a = Some ''landsat'' then
        (if target a = Some ''cloud'' then
           (case subscript conf_value (confidence a) of
              Inl e \<Rightarrow> Inl e | Inr c \<Rightarrow> get_cloud_mask band_data c False)
         else if target a = Some ''cirrus'' then
           (case subscript conf_value (confidence a) of
              Inl e \<Rightarrow> Inl e | Inr c \<Rightarrow> get_cirrus_mask band_data c False)
         else if target a = Some ''water'' then
           (case subscript conf_value (confidence a) of
              Inl e \<Rightarrow> Inl e | Inr c \<Rightarrow> get_water_mask band_data c False)
         else if target a = Some ''vegetation'' then
           (case subscript conf_value (confidence a) of
              Inl e \<Rightarrow> Inl e | Inr c \<Rightarrow> get_veg_mask band_data c False)
         else if target a = Some ''snow'' then
           (case subscript conf_value (confidence a) of
              Inl e \<Rightarrow> Inl e | Inr c \<Rightarrow> get_snow_mask band_data c False)
         else Inl (PyException (''Masker type '' @ fmt_s (target a) @ '' is unrecongized.'')))
      else if source a = Some ''modis'' then
        (case subscript quality_value (quality a) of
           Inl e \<Rightarrow> Inl e | Inr q \<Rightarrow> get_qa_mask band_data (IntV q))
      else Inl (PyException (''Given source '' @ fmt_s (source a) @ '' is unrecongized.'')))"

section \<open>The masker object and the arrays it refers to\<close>

text \<open>
  Arrays are objects: a variable or an attribute holds a reference to an array, and an
  operation may build a new array or change one in place. The state of the program is the
  masker, with its attributes \<open>file_path\<close> and \<open>band_data\<close>, the latter a reference to
  an integer array, and the arrays that exist, integer arrays and boolean arrays, each kind
  numbered in the order of creation.
\<close>

record pystate =
  file_path :: "string option"
  band_data :: nat
  int_arrays :: "nat \<Rightarrow> ndarray"
  bool_arrays :: "nat \<Rightarrow> bmask"
  int_count :: nat
  bool_count :: nat

text \<open>\<open>load_data\<close> assigns both attributes; the masker then refers to the caller's array.\<close>

definition load_data :: "nat \<Rightarrow> pystate \<Rightarrow> pystate" where
  "load_data array s = s\<lparr>file_path := None, band_data := array\<rparr>"

text \<open>Creating an array: it gets the next number, and the arrays that exist stay.\<close>

definition new_int_array :: "ndarray \<Rightarrow> pystate \<Rightarrow> nat \<times> pystate" where
  "new_int_array x s =
     (int_count s,
      s\<lparr>int_arrays := (int_arrays s)(int_count s := x), int_count := Suc (int_count s)\<rparr>)"

definition new_bool_array :: "bmask \<Rightarrow> pystate \<Rightarrow> nat \<times> pystate" where
  "new_bool_array x s =
     (bool_count s,
      s\<lparr>bool_arrays := (bool_arrays s)(bool_count s := x), bool_count := Suc (bool_count s)\<rparr>)"

text \<open>
  The numpy operations on references. Each of \<open>&\<close>, the comparisons,
  \<open>logical_or\<close>, \<open>logical_and\<close> and \<open>astype\<close> reads its operands and returns a
  new array.
\<close>

definition and_op :: "nat \<Rightarrow> int \<Rightarrow> pystate \<Rightarrow> (error + nat) \<times> pystate" where
  "and_op a k s =
     (case bitwise_and (int_arrays s a) k of
        Inl e \<Rightarrow> (Inl e, s)
      | Inr x \<Rightarrow> (case new_int_array x s of (r, s') \<Rightarrow> (Inr r, s')))"

definition eq_op :: "nat \<Rightarrow> int \<Rightarrow> pystate \<Rightarrow> (error + nat) \<times> pystate" where
  "eq_op a k s =
     (case new_bool_array (equal_int (int_arrays s a) k) s of (r, s') \<Rightarrow> (Inr r, s'))"

definition ge_op :: "nat \<Rightarrow> int \<Rightarrow> pystate \<Rightarrow> (error + nat) \<times> pystate" where
  "ge_op a k s =
     (case new_bool_array (greater_equal_int (int_arrays s a) k) s of
        (r, s') \<Rightarrow> (Inr r, s'))"

definition lt_op :: "nat \<Rightarrow> int \<Rightarrow> pystate \<Rightarrow> (error + nat) \<times> pystate" where
  "lt_op a k s =
     (case new_bool_array (less_int (int_arrays s a) k) s of (r, s') \<Rightarrow> (Inr r, s'))"

definition logical_or_op :: "nat \<Rightarrow> nat \<Rightarrow> pystate \<Rightarrow> (error + nat) \<times> pystate" where
  "logical_or_op a b s =
     (case new_bool_array (logical_or (bool_arrays s a) (bool_arrays s b)) s of
        (r, s') \<Rightarrow> (Inr r, s'))"

definition logical_and_op :: "nat \<Rightarrow> nat \<Rightarrow> pystate \<Rightarrow> (error + nat) \<times> pystate" where
  "logical_and_op a b s =
     (case new_bool_array (logical_and (bool_arrays s a) (bool_arrays s b)) s of
        (r, s') \<Rightarrow> (Inr r, s'))"

text \<open>\<open>astype(int)\<close> on a boolean array and on an integer array: a new 64-bit array.\<close>

definition astype_int_op :: "nat \<Rightarrow> pystate \<Rightarrow> (error + nat) \<times> pystate" where
  "astype_int_op a s =
     (case new_int_array \<lparr>dtype = Int64, cells = astype_int (bool_arrays s a)\<rparr> s of
        (r, s') \<Rightarrow> (Inr r, s'))"

definition astype_int_copy_op :: "nat \<Rightarrow> pystate \<Rightarrow> (error + nat) \<times> pystate" where
  "astype_int_copy_op a s =
     (case new_int_array ((int_arrays s a)\<lparr>dtype := Int64\<rparr>) s of
        (r, s') \<Rightarrow> (Inr r, s'))"

text \<open>One statement after another: an error ends the method with the state it has left.\<close>

definition seq ::
  "(error + 'a) \<times> pystate \<Rightarrow> ('a \<Rightarrow> pystate \<Rightarrow> (error + 'b) \<times> pystate)
     \<Rightarrow> (error + 'b) \<times> pystate" where
  "seq r f = (case r of (Inl e, s) \<Rightarrow> (Inl e, s) | (Inr x, s) \<Rightarrow> f x s)"

text \<open>
  The query methods, statement by statement, on the state. Each takes the arguments of
  the method and returns the reference it returns, or the error it raises, and the state
  it leaves.
\<close>

definition get_mask_method ::
  "int \<Rightarrow> int \<Rightarrow> target \<Rightarrow> pystate \<Rightarrow> (error + nat) \<times> pystate" where
  "get_mask_method bit_pos bit_len val s =
     seq (int_base2 (replicate (nat bit_len) CHR ''1''), s) (\<lambda>bitlen s.
     seq (case val of StrV str \<Rightarrow> int_base2 str | IntV v \<Rightarrow> Inr v, s) (\<lambda>v s.
     seq (shl bitlen bit_pos, s) (\<lambda>pos_value s.
     seq (shl v bit_pos, s) (\<lambda>con_value s.
     seq (and_op (band_data s) pos_value s) (\<lambda>masked s.
     seq (eq_op masked con_value s) (\<lambda>m s.
     astype_int_op m s))))))"

definition landsat_get_mask_method ::
  "int \<Rightarrow> int \<Rightarrow> int \<Rightarrow> bool \<Rightarrow> pystate \<Rightarrow> (error + nat) \<times> pystate" where
  "landsat_get_mask_method bit_loc bit_len val cumulative s =
     seq (shl bit_len bit_loc, s) (\<lambda>pos_value s.
     seq (shl val bit_loc, s) (\<lambda>con_value s.
     seq (and_op (band_data s) pos_value s) (\<lambda>masked s.
     if cumulative then ge_op masked con_value s else eq_op masked con_value s)))"

definition get_cloud_mask_method :: "int \<Rightarrow> bool \<Rightarrow> pystate \<Rightarrow> (error + nat) \<times> pystate" where
  "get_cloud_mask_method conf cumulative s =
     seq (landsat_get_mask_method 14 3 conf cumulative s) astype_int_op"

definition get_cirrus_mask_method :: "int \<Rightarrow> bool \<Rightarrow> pystate \<Rightarrow> (error + nat) \<times> pystate" where
  "get_cirrus_mask_method conf cumulative s =
     seq (landsat_get_mask_method 12 3 conf cumulative s) astype_int_op"

definition get_veg_mask_method :: "int \<Rightarrow> bool \<Rightarrow> pystate \<Rightarrow> (error + nat) \<times> pystate" where
  "get_veg_mask_method conf cumulative s =
     seq (landsat_get_mask_method 8 3 conf cumulative s) astype_int_op"

definition get_water_mask_method :: "int \<Rightarrow> bool \<Rightarrow> pystate \<Rightarrow> (error + nat) \<times> pystate" where
  "get_water_mask_method conf cumulative s =
     seq (landsat_get_mask_method 4 3 conf cumulative s) astype_int_op"

definition get_snow_mask_method :: "int \<Rightarrow> bool \<Rightarrow> pystate \<Rightarrow> (error + nat) \<times> pystate" where
  "get_snow_mask_method conf cumulative s =
     seq (landsat_get_mask_method 10 3 conf cumulative s) astype_int_op"

definition get_fill_mask_method :: "pystate \<Rightarrow> (error + nat) \<times> pystate" where
  "get_fill_mask_method s = landsat_get_mask_method 0 1 1 False s"

fun multi_loop_method ::
  "bool \<Rightarrow> (int \<times> int \<times> bool) list \<Rightarrow> nat \<Rightarrow> pystate \<Rightarrow> (error + nat) \<times> pystate" where
  "multi_loop_method inclusive [] final_mask s = (Inr final_mask, s)"
| "multi_loop_method inclusive (task # tasks) final_mask s =
     (case landsat_get_mask_method (fst task) 3 (fst (snd task)) (snd (snd task)) s of
        (Inl e, s1) \<Rightarrow> (Inl e, s1)
      | (Inr msk, s1) \<Rightarrow>
          (case (if inclusive then logical_or_op final_mask msk s1
                 else logical_and_op final_mask msk s1) of
             (Inl e, s2) \<Rightarrow> (Inl e, s2)
           | (Inr fm, s2) \<Rightarrow> multi_loop_method inclusive tasks fm s2))"

definition get_multi_mask_method ::
  "int \<Rightarrow> bool \<Rightarrow> int \<Rightarrow> bool \<Rightarrow> int \<Rightarrow> bool \<Rightarrow> int \<Rightarrow> bool \<Rightarrow> int \<Rightarrow> bool \<Rightarrow> bool
     \<Rightarrow> pystate \<Rightarrow> (error + nat) \<times> pystate" where
  "get_multi_mask_method cloud cloud_cum cirrus cirrus_cum snow snow_cum veg veg_cum
       water water_cum inclusive s =
     seq (if inclusive then lt_op (band_data s) 0 s else ge_op (band_data s) 0 s)
       (\<lambda>final_mask s.
     seq (multi_loop_method inclusive
            [(8, veg, veg_cum), (10, snow, snow_cum), (12, cirrus, cirrus_cum),
             (14, cloud, cloud_cum), (4, water, water_cum)] final_mask s)
       astype_int_op)"

definition get_qa_mask_method :: "target \<Rightarrow> pystate \<Rightarrow> (error + nat) \<times> pystate" where
  "get_qa_mask_method q s = seq (get_mask_method 0 2 q s) astype_int_copy_op"

text \<open>
  A call of one of the query methods with its arguments; what a call returns refers to an
  integer array or, for the fill mask, to a boolean array.
\<close>

datatype query =
    Get_mask int int target
  | Get_cloud_mask int bool
  | Get_cirrus_mask int bool
  | Get_veg_mask int bool
  | Get_water_mask int bool
  | Get_snow_mask int bool
  | Get_fill_mask
  | Get_multi_mask int bool int bool int bool int bool int bool bool
  | Get_qa_mask target

datatype ref = IntArray nat | BoolArray nat

definition as_ref ::
  "(nat \<Rightarrow> ref) \<Rightarrow> (error + nat) \<times> pystate \<Rightarrow> (error + ref) \<times> pystate" where
  "as_ref k r = (map_result k (fst r), snd r)"

fun call :: "query \<Rightarrow> pystate \<Rightarrow> (error + ref) \<times> pystate" where
  "call (Get_mask bit_pos bit_len val) s = as_ref IntArray (get_mask_method bit_pos bit_len val s)"
| "call (Get_cloud_mask conf cumulative) s =
     as_ref IntArray (get_cloud_mask_method conf cumulative s)"
| "call (Get_cirrus_mask conf cumulative) s =
     as_ref IntArray (get_cirrus_mask_method conf cumulative s)"
| "call (Get_veg_mask conf cumulative) s =
     as_ref IntArray (get_veg_mask_method conf cumulative s)"
| "call (Get_water_mask conf cumulative) s =
     as_ref IntArray (get_water_mask_method conf cumulative s)"
| "call (Get_snow_mask conf cumulative) s =
     as_ref IntArray (get_snow_mask_method conf cumulative s)"
| "call Get_fill_mask s = as_ref BoolArray (get_fill_mask_method s)"
| "call (Get_multi_mask cloud cloud_cum cirrus cirrus_cum snow snow_cum veg veg_cum
       water water_cum inclusive) s =
     as_ref IntArray (get_multi_mask_method cloud cloud_cum cirrus cirrus_cum snow snow_cum
       veg veg_cum water water_cum inclusive s)"
| "call (Get_qa_mask q) s = as_ref IntArray (get_qa_mask_method q s)"

text \<open>A sequence of calls, each on the state that the one before has left.\<close>

fun calls :: "query list \<Rightarrow> pystate \<Rightarrow> pystate" where
  "calls [] s = s"
| "calls (q # qs) s = calls qs (snd (call q s))"

text \<open>The mask that a call has returned: the cells of the array its result refers to.\<close>

datatype answer = Ints imask | Bools bmask

fun deref :: "pystate \<Rightarrow> ref \<Rightarrow> answer" where
  "deref s (IntArray a) = Ints (cells (int_arrays s a))"
| "deref s (BoolArray a) = Bools (bool_arrays s a)"

definition returned :: "(error + ref) \<times> pystate \<Rightarrow> error + answer" where
  "returned r = map_result (deref (snd r)) (fst r)"

text \<open>
  What the same call computes from the band alone, by the definitions above that take the
  array and return the cells of the mask.
\<close>

fun mask_of :: "query \<Rightarrow> ndarray \<Rightarrow> error + answer" where
  "mask_of (Get_mask bit_pos bit_len val) b = map_result Ints (get_mask b bit_pos bit_len val)"
| "mask_of (Get_cloud_mask conf cumulative) b = map_result Ints (get_cloud_mask b conf cumulative)"
| "mask_of (Get_cirrus_mask conf cumulative) b =
     map_result Ints (get_cirrus_mask b conf cumulative)"
| "mask_of (Get_veg_mask conf cumulative) b = map_result Ints (get_veg_mask b conf cumulative)"
| "mask_of (Get_water_mask conf cumulative) b = map_result Ints (get_water_mask b conf cumulative)"
| "mask_of (Get_snow_mask conf cumulative) b = map_result Ints (get_snow_mask b conf cumulative)"
| "mask_of Get_fill_mask b = map_result Bools (get_fill_mask b)"
| "mask_of (Get_multi_mask cloud cloud_cum cirrus cirrus_cum snow snow_cum veg veg_cum
       water water_cum inclusive) b =
     map_result Ints (get_multi_mask b cloud cloud_cum cirrus cirrus_cum snow snow_cum
       veg veg_cum water water_cum inclusive)"
| "mask_of (Get_qa_mask q) b = map_result Ints (get_qa_mask b q)"

text \<open>
  A later state keeps an earlier one: the attributes of the masker are the same, and every
  array that existed is still there with the same type and cells.
\<close>

definition keeps :: "pystate \<Rightarrow> pystate \<Rightarrow> bool" where
  "keeps s s' =
     (file_path s' = file_path s \<and> band_data s' = band_data s
      \<and> int_count s \<le> int_count s' \<and> bool_count s \<le> bool_count s'
      \<and> (\<forall>a<int_count s. int_arrays s' a = int_arrays s a)
      \<and> (\<forall>a<bool_count s. bool_arrays s' a = bool_arrays s a))"

section \<open>Bit fields\<close>

text \<open>The range mask of a field of w bits at the offset p.\<close>

definition range_mask :: "int \<Rightarrow> int \<Rightarrow> int" where
  "range_mask p w = (2 ^ nat w - 1) * 2 ^ nat p"

text \<open>The integer value of the bits of a cell at the positions from p up to p + w.\<close>

definition field_value :: "int \<Rightarrow> int \<Rightarrow> int \<Rightarrow> int" where
  "field_value c p w = (c div 2 ^ nat p) mod 2 ^ nat w"

text \<open>The bits of a cell at the positions from p up to p + w, the lowest first.\<close>

definition field_bits :: "int \<Rightarrow> int \<Rightarrow> int \<Rightarrow> bool list" where
  "field_bits c p w = map (bit c) [nat p..<nat p + nat w]"

text \<open>
  The binary representation of v, the lowest bit first, padded with zeros or truncated to
  w bits.
\<close>

definition target_bits :: "int \<Rightarrow> int \<Rightarrow> bool list" where
  "target_bits v w = map (bit v) [0..<nat w]"

text \<open>
  What one task of the loop in \<open>get_multi_mask\<close> asks of a cell: the bits of the cell
  that the mask \<open>3 << bit_loc\<close> selects, shifted down, compared with the task's level.
\<close>

definition task_holds :: "int \<times> int \<times> bool \<Rightarrow> int \<Rightarrow> bool" where
  "task_holds task c =
     (if snd (snd task) then fst (snd task) \<le> (drop_bit (nat (fst task)) c AND 3)
      else (drop_bit (nat (fst task)) c AND 3) = fst (snd task))"

text \<open>
  What a method has to leave behind to agree with a mask computed from the band alone:
  a state that keeps the one before, and a result that is the same error or refers to an
  existing array with the cells of that mask.
\<close>

definition int_post :: "pystate \<Rightarrow> (error + nat) \<times> pystate \<Rightarrow> error + imask \<Rightarrow> bool" where
  "int_post s r v =
     (keeps s (snd r)
      \<and> (case fst r of
            Inl e \<Rightarrow> v = Inl e
          | Inr a \<Rightarrow> a < int_count (snd r) \<and> v = Inr (cells (int_arrays (snd r) a))))"

definition bool_post :: "pystate \<Rightarrow> (error + nat) \<times> pystate \<Rightarrow> error + bmask \<Rightarrow> bool" where
  "bool_post s r v =
     (keeps s (snd r)
      \<and> (case fst r of
            Inl e \<Rightarrow> v = Inl e
          | Inr a \<Rightarrow> a < bool_count (snd r) \<and> v = Inr (bool_arrays (snd r) a)))"

section \<open>Basic facts\<close>

lemma map2d_nth:
  "i < length xs \<Longrightarrow> j < length (xs ! i) \<Longrightarrow> map2d f xs ! i ! j = f (xs ! i ! j)"
  by (simp add: map2d_def)

lemma map2d_map2d: "map2d f (map2d g xs) = map2d (\<lambda>x. f (g x)) xs"
  by (simp add: map2d_def comp_def)

lemma fits_one: "fits d 1"
  by (cases d) (simp_all add: fits_def)

lemma fits_mono: "fits d k \<Longrightarrow> 0 \<le> j \<Longrightarrow> j \<le> k \<Longrightarrow> fits d j"
  by (cases d) (simp_all add: fits_def)

lemma wf_array_nth:
  "wf_array a \<Longrightarrow> i < length (cells a) \<Longrightarrow> j < length (cells a ! i)
     \<Longrightarrow> fits (dtype a) (cells a ! i ! j)"
  by (simp add: wf_array_def list_all_length)

section \<open>Parsing the string of ones\<close>

lemma scan_digits_ones:
  "scan_digits acc False (replicate n CHR ''1'') = Some (acc * 2 ^ n + 2 ^ n - 1, [])"
  by (induction n arbitrary: acc) (simp_all add: algebra_simps)

lemma int_base2_ones:
  "int_base2 (replicate n CHR ''1'') = (if n = 0 then Inl ValueError else Inr (2 ^ n - 1))"
proof (cases n)
  case 0
  then show ?thesis by (simp add: int_base2_def strip_sign_def strip_0b_def)
next
  case (Suc k)
  have s: "scan_digits 0 False (CHR ''1'' # replicate k CHR ''1'') = Some (2 ^ Suc k - 1, [])"
    using scan_digits_ones [of 0 "Suc k"] by simp
  have "dropWhile py_isspace (replicate (Suc k) CHR ''1'') = replicate (Suc k) CHR ''1''"
    by (simp add: py_isspace_def)
  moreover have "strip_sign (replicate (Suc k) CHR ''1'') = (1, replicate (Suc k) CHR ''1'')"
    by (simp add: strip_sign_def)
  moreover have "strip_0b (replicate (Suc k) CHR ''1'') = replicate (Suc k) CHR ''1''"
    by (cases k) (simp_all add: strip_0b_def)
  ultimately show ?thesis
    using Suc s by (simp add: int_base2_def del: scan_digits.simps)
qed

lemma int_base2_Nil: "int_base2 [] = Inl ValueError"
  by (simp add: int_base2_def strip_sign_def strip_0b_def)

section \<open>Masking and shifting\<close>

lemma and_shifted_mask:
  "(c::int) AND push_bit p (2 ^ w - 1) = push_bit p (take_bit w (drop_bit p c))"
  by (rule bit_eqI) (auto simp add: bit_simps simp flip: mask_eq_exp_minus_1)

lemma and_shifted:
  "(c::int) AND push_bit p m = push_bit p (drop_bit p c AND m)"
  by (rule bit_eqI) (auto simp add: bit_simps)

lemma push_bit_int_inj: "push_bit p (a::int) = push_bit p b \<longleftrightarrow> a = b"
  by (simp add: push_bit_eq_mult)

lemma push_bit_int_le: "push_bit p (a::int) \<le> push_bit p b \<longleftrightarrow> a \<le> b"
  by (simp add: push_bit_eq_mult)

lemma range_mask_eq: "range_mask p w = push_bit (nat p) (2 ^ nat w - 1)"
  by (simp add: range_mask_def push_bit_eq_mult)

lemma field_value_eq: "field_value c p w = take_bit (nat w) (drop_bit (nat p) c)"
  by (simp add: field_value_def take_bit_eq_mod drop_bit_eq_div)

lemma field_value_range: "0 \<le> field_value c p w \<and> field_value c p w < 2 ^ nat w"
  by (simp add: field_value_def)

lemma exact_iff_field:
  "((c::int) AND push_bit (nat p) (2 ^ nat w - 1)) = push_bit (nat p) v
     \<longleftrightarrow> field_value c p w = v"
  by (simp add: and_shifted_mask push_bit_int_inj field_value_eq)

lemma bits_eq_iff:
  "field_bits c p w = target_bits v w \<longleftrightarrow> field_value c p w = take_bit (nat w) v"
proof -
  have "field_bits c p w = target_bits v w \<longleftrightarrow> (\<forall>i<nat w. bit c (nat p + i) = bit v i)"
    by (simp add: field_bits_def target_bits_def list_eq_iff_nth_eq)
  also have "\<dots> \<longleftrightarrow> take_bit (nat w) (drop_bit (nat p) c) = take_bit (nat w) v"
    by (auto simp add: bit_eq_iff bit_simps)
  finally show ?thesis by (simp add: field_value_eq)
qed

lemma field_iff_bits:
  "field_value c p w = v
     \<longleftrightarrow> 0 \<le> v \<and> v < 2 ^ nat w \<and> field_bits c p w = target_bits v w"
proof -
  have "take_bit (nat w) v = v \<longleftrightarrow> 0 \<le> v \<and> v < 2 ^ nat w"
    by (rule take_bit_int_eq_self_iff)
  then show ?thesis
    using field_value_range [of c p w] by (auto simp add: bits_eq_iff)
qed

text \<open>
  What \<open>Masker.get_mask\<close> computes for an integer target: OverflowError when the range
  mask is out of the range of the type of the array, else the comparison of the field.
\<close>

lemma get_mask_int:
  assumes "0 \<le> bit_pos" and "1 \<le> bit_len"
  shows "get_mask band bit_pos bit_len (IntV v) =
         (if fits (dtype band) (range_mask bit_pos bit_len)
          then Inr (map2d (\<lambda>c. if field_value c bit_pos bit_len = v then 1 else 0)
                 (cells band))
          else Inl OverflowError)"
proof -
  have "nat bit_len \<noteq> 0" using assms by simp
  then show ?thesis using assms
    by (simp add: get_mask_def int_base2_ones shl_def bitwise_and_def equal_int_def
        astype_int_def map2d_map2d exact_iff_field range_mask_eq)
qed

section \<open>Exact extraction\<close>

text \<open>
  C2, as stated: for every array, offset p, width w and integer target v, exact extraction
  returns true at a cell iff the bits of the cell at the positions from p up to p + w equal
  the binary representation of v, padded with zeros or truncated to w bits, for
  \<open>Masker.get_mask\<close> and for the extraction inside the Landsat masker. It fails in
  three ways. \<open>Masker.get_mask\<close> does not truncate: on the cell 1 with p = 0, w = 1 and
  v = 3 the one bit of the field equals the lowest bit of 3, and the mask holds 0. The
  Landsat extraction called with width 3 reads two bits: on the cell 64 with p = 4 and
  v = 0 the field is 100, not 000, and the mask holds True. And no mask is returned when
  the range mask is out of the range of the type of the array: on a 64-bit array with
  p = 62 and w = 2 the operation \<open>&\<close> raises OverflowError.
\<close>

theorem exact_truncation_counterexample:
  "get_mask \<lparr>dtype = Int64, cells = [[1]]\<rparr> 0 1 (IntV 3) = Inr [[0]]
   \<and> field_bits 1 0 1 = target_bits 3 1
   \<and> LandsatMasker_get_mask \<lparr>dtype = Int64, cells = [[64]]\<rparr> 4 3 0 False = Inr [[True]]
   \<and> field_bits 64 4 3 \<noteq> target_bits 0 3
   \<and> get_mask \<lparr>dtype = Int64, cells = [[0, 7]]\<rparr> 62 2 (IntV 1) = Inl OverflowError"
  by (simp add: get_mask_int map2d_def field_value_def LandsatMasker_get_mask_def shl_def
      bitwise_and_def equal_int_def fits_def range_mask_def
      field_bits_def target_bits_def upt_rec bit_numeral_rec)

text \<open>
  C2, amended: for every array, every bit offset p at least 0, every bit width w at least
  1 and every integer target v, \<open>Masker.get_mask\<close> raises OverflowError when the range
  mask of the field is out of the range of the type of the array; otherwise it returns 1
  at a cell iff v lies in the range of a w-bit field, from 0 up to 2 to the power w, and
  the bits of the cell at the positions from p up to p + w equal the binary representation
  of v padded with zeros to w bits. A target outside that range is matched at no cell.
\<close>

theorem get_mask_exact_bits:
  assumes "0 \<le> bit_pos" and "1 \<le> bit_len"
  shows "get_mask band bit_pos bit_len (IntV v) =
         (if fits (dtype band) (range_mask bit_pos bit_len)
          then Inr (map2d (\<lambda>c. if 0 \<le> v \<and> v < 2 ^ nat bit_len
                             \<and> field_bits c bit_pos bit_len = target_bits v bit_len
                          then 1 else 0) (cells band))
          else Inl OverflowError)"
  using assms by (simp add: get_mask_int field_iff_bits)

theorem get_mask_exact_bits_witness:
  "get_mask \<lparr>dtype = UInt8, cells = [[5, 6], [7, 13]]\<rparr> 1 2 (IntV 2) = Inr [[1, 0], [0, 1]]
   \<and> get_mask \<lparr>dtype = UInt8, cells = [[5, 6], [7, 13]]\<rparr> 7 2 (IntV 2) = Inl OverflowError"
  using get_mask_exact_bits [of 1 2 "\<lparr>dtype = UInt8, cells = [[5, 6], [7, 13]]\<rparr>" 2]
    get_mask_exact_bits [of 7 2 "\<lparr>dtype = UInt8, cells = [[5, 6], [7, 13]]\<rparr>" 2]
  by (simp add: map2d_def field_bits_def target_bits_def upt_rec bit_numeral_rec fits_def
      range_mask_def)

section \<open>A target wider than the field\<close>

text \<open>
  C10, as stated: for every array, every bit offset p at least 0 and bit width w at least
  1, \<open>Masker.get_mask\<close> with an integer target of at least 2 to the power w returns the
  mask that is 0 at every cell. On a 64-bit array with p = 62, w = 2 and v = 4 no mask is
  returned: the range mask does not fit the type of the array and \<open>&\<close> raises
  OverflowError.
\<close>

theorem wide_target_counterexample:
  "get_mask \<lparr>dtype = Int64, cells = [[0, 7]]\<rparr> 62 2 (IntV 4) = Inl OverflowError"
  by (simp add: get_mask_int fits_def range_mask_def)

text \<open>
  C10, amended: for every array, every bit offset p at least 0 and bit width w at least 1,
  \<open>Masker.get_mask\<close> with an integer target of at least 2 to the power w returns the
  mask that is 0 at every cell when the range mask of the field lies in the range of the
  type of the array, and raises OverflowError when it does not.
\<close>

theorem get_mask_wide_target:
  assumes "0 \<le> bit_pos" and "1 \<le> bit_len" and "2 ^ nat bit_len \<le> v"
  shows "get_mask band bit_pos bit_len (IntV v) =
         (if fits (dtype band) (range_mask bit_pos bit_len)
          then Inr (map2d (\<lambda>c. 0) (cells band))
          else Inl OverflowError)"
proof -
  have "field_value c bit_pos bit_len \<noteq> v" for c
    using field_value_range [of c bit_pos bit_len] assms(3) by linarith
  then show ?thesis using assms by (simp add: get_mask_int)
qed

theorem get_mask_wide_target_witness:
  "get_mask \<lparr>dtype = UInt16, cells = [[0, 7], [255, 8]]\<rparr> 1 2 (IntV 4) = Inr [[0, 0], [0, 0]]
   \<and> get_mask \<lparr>dtype = UInt16, cells = [[0, 7], [255, 8]]\<rparr> 15 2 (IntV 4) = Inl OverflowError"
  using get_mask_wide_target [of 1 2 4 "\<lparr>dtype = UInt16, cells = [[0, 7], [255, 8]]\<rparr>"]
    get_mask_wide_target [of 15 2 4 "\<lparr>dtype = UInt16, cells = [[0, 7], [255, 8]]\<rparr>"]
  by (simp add: map2d_def fits_def range_mask_def)

section \<open>The extraction inside the Landsat masker\<close>

text \<open>
  With the mask \<open>bit_len << bit_loc\<close> the method compares the bits of the cell that
  \<open>bit_len\<close> itself selects, after shifting the cell down by \<open>bit_loc\<close>; it raises
  OverflowError when that mask is out of the range of the type of the array.
\<close>

lemma landsat_get_mask_eval:
  assumes "0 \<le> bit_loc"
  shows "LandsatMasker_get_mask band bit_loc bit_len v cumulative =
         (if fits (dtype band) (push_bit (nat bit_loc) bit_len)
          then Inr (map2d (\<lambda>c. if cumulative
                                then v \<le> (drop_bit (nat bit_loc) c AND bit_len)
                                else (drop_bit (nat bit_loc) c AND bit_len) = v) (cells band))
          else Inl OverflowError)"
proof -
  have s1: "shl bit_len bit_loc = Inr (push_bit (nat bit_loc) bit_len)"
    and s2: "shl v bit_loc = Inr (push_bit (nat bit_loc) v)"
    using assms by (simp_all add: shl_def)
  have e: "(c AND push_bit (nat bit_loc) bit_len = push_bit (nat bit_loc) v)
           = (drop_bit (nat bit_loc) c AND bit_len = v)" for c
    by (simp only: and_shifted [of c] push_bit_int_inj)
  have l: "(push_bit (nat bit_loc) v \<le> c AND push_bit (nat bit_loc) bit_len)
           = (v \<le> drop_bit (nat bit_loc) c AND bit_len)" for c
    by (simp only: and_shifted [of c] push_bit_int_le)
  show ?thesis
  proof (cases "fits (dtype band) (push_bit (nat bit_loc) bit_len)")
    case True
    then show ?thesis
      unfolding LandsatMasker_get_mask_def s1 s2 bitwise_and_def equal_int_def
        greater_equal_int_def
      by (cases cumulative) (simp_all add: map2d_map2d e l)
  next
    case False
    then show ?thesis
      unfolding LandsatMasker_get_mask_def s1 s2 bitwise_and_def by simp
  qed
qed

lemma none_never_equal: "(x AND 3) \<noteq> (none::int)"
proof -
  have "0 \<le> x AND (3::int)" by (simp add: and_nonnegative_int_iff)
  then show ?thesis unfolding none_def by linarith
qed

lemma none_always_below: "(none::int) \<le> (x AND 3)"
proof -
  have "0 \<le> x AND (3::int)" by (simp add: and_nonnegative_int_iff)
  then show ?thesis unfolding none_def by linarith
qed

lemma landsat_none:
  assumes "0 \<le> bit_loc"
  shows "map_result astype_int (LandsatMasker_get_mask band bit_loc 3 none cumulative) =
         (if fits (dtype band) (push_bit (nat bit_loc) 3)
          then Inr (map2d (\<lambda>c. if cumulative then 1 else 0) (cells band))
          else Inl OverflowError)"
  using assms
  by (simp add: landsat_get_mask_eval map_result_def astype_int_def map2d_map2d
      none_never_equal none_always_below)

lemma bit0_and_one: "((c::int) AND 1 = 1) = bit c 0"
proof -
  have "(c mod 2 = 1) = odd c" by presburger
  then show ?thesis by (simp add: and_one_eq bit_0)
qed

section \<open>Cumulative extraction\<close>

text \<open>
  C1. The claim: cumulative extraction returns true at a cell iff the integer value of the
  bits of the cell from p up to p + w is at least v, the cell being masked with the full
  range mask. The code masks with \<open>bit_len << bit_loc\<close>, which for the width 3 of the
  condition getters covers two bits. On the cell 64 the water field, the bits 4 to 6, has
  the value 4, which is at least \<open>low\<close>, and the cumulative water query at \<open>low\<close>
  returns 0 at that cell.
\<close>

theorem cumulative_water_at_64:
  "get_water_mask \<lparr>dtype = Int64, cells = [[64]]\<rparr> low True = Inr [[0]]
   \<and> low \<le> field_value 64 4 3"
  by (simp add: get_water_mask_def LandsatMasker_get_mask_def shl_def bitwise_and_def
      greater_equal_int_def fits_def map_result_def astype_int_def map2d_def low_def
      field_value_def)

section \<open>The fill mask\<close>

text \<open>
  C5. For every array, \<open>get_fill_mask\<close> returns true at exactly the cells whose bit 0
  is set, whatever the other bits of the cell are. The mask 1 lies in the range of every
  integer type, so the query never fails.
\<close>

theorem fill_mask_bit0: "get_fill_mask band = Inr (map2d (\<lambda>c. bit c 0) (cells band))"
  by (simp add: get_fill_mask_def landsat_get_mask_eval bit0_and_one fits_one)

section \<open>The sentinel level in the condition getters\<close>

text \<open>
  C9, as stated: for every array of non-negative integers, each of the five condition
  getters called with the level \<open>none\<close> returns the mask that is false everywhere when
  not cumulative and true everywhere when cumulative. On a 16-bit signed array the cloud
  getter returns no mask: its mask 3 << 14 is out of the range of the type and \<open>&\<close>
  raises OverflowError.
\<close>

theorem getters_none_counterexample:
  "get_cloud_mask \<lparr>dtype = Int16, cells = [[0, 1]]\<rparr> none False = Inl OverflowError"
  by (simp add: get_cloud_mask_def landsat_none fits_def)

text \<open>
  C9, amended: for every array whose type holds the mask of the condition (3 << 14 for
  cloud, 3 << 12 for cirrus, 3 << 10 for snow, 3 << 8 for vegetation, 3 << 4 for water),
  the getter of the condition called with the level \<open>none\<close> returns the mask that is 0
  at every cell when not cumulative and 1 at every cell when cumulative: the masked cell is
  never negative, and the shifted level is. For an array whose type does not hold the mask
  the getter raises OverflowError.
\<close>

theorem getters_at_none:
  "get_cloud_mask band none cumulative =
     (if fits (dtype band) 49152 then Inr (map2d (\<lambda>c. if cumulative then 1 else 0) (cells band))
      else Inl OverflowError)
   \<and> get_cirrus_mask band none cumulative =
     (if fits (dtype band) 12288 then Inr (map2d (\<lambda>c. if cumulative then 1 else 0) (cells band))
      else Inl OverflowError)
   \<and> get_snow_mask band none cumulative =
     (if fits (dtype band) 3072 then Inr (map2d (\<lambda>c. if cumulative then 1 else 0) (cells band))
      else Inl OverflowError)
   \<and> get_veg_mask band none cumulative =
     (if fits (dtype band) 768 then Inr (map2d (\<lambda>c. if cumulative then 1 else 0) (cells band))
      else Inl OverflowError)
   \<and> get_water_mask band none cumulative =
     (if fits (dtype band) 48 then Inr (map2d (\<lambda>c. if cumulative then 1 else 0) (cells band))
      else Inl OverflowError)"
  by (simp add: get_cloud_mask_def get_cirrus_mask_def get_snow_mask_def get_veg_mask_def
      get_water_mask_def landsat_none)

section \<open>The cloud query on the cell 0xC000\<close>

text \<open>
  C4. Wherever a cell of an array holds 0xC000 (bits 14 and 15 set, all other bits clear),
  the cloud query at confidence high, not cumulative, returns a mask holding 1 at that
  cell. The cells of an array lie in the range of its type, so the type of such an array
  holds the mask 3 << 14.
\<close>

theorem cloud_high_at_0xC000:
  assumes "wf_array band"
    and "i < length (cells band)" and "j < length (cells band ! i)"
    and "cells band ! i ! j = 0xC000"
  shows "\<exists>m. get_cloud_mask band high False = Inr m \<and> m ! i ! j = 1"
proof -
  have "fits (dtype band) 49152"
    using wf_array_nth [OF assms(1-3)] assms(4) by simp
  then show ?thesis
    using assms(2-4)
    by (simp add: get_cloud_mask_def landsat_get_mask_eval map_result_def astype_int_def
        map2d_map2d map2d_nth high_def drop_bit_eq_div)
qed

theorem cloud_high_at_0xC000_witness:
  "get_cloud_mask \<lparr>dtype = UInt16, cells = [[0, 0xC000], [1, 2]]\<rparr> high False
     = Inr [[0, 1], [0, 0]]"
proof -
  have "\<exists>m. get_cloud_mask \<lparr>dtype = UInt16, cells = [[0, 0xC000], [1, 2]]\<rparr> high False = Inr m
          \<and> m ! 0 ! 1 = 1"
    using cloud_high_at_0xC000 [of "\<lparr>dtype = UInt16, cells = [[0, 0xC000], [1, 2]]\<rparr>" 0 1]
    by (simp add: wf_array_def fits_def)
  then show ?thesis
    by (simp add: get_cloud_mask_def landsat_get_mask_eval fits_def map_result_def
        astype_int_def map2d_def high_def drop_bit_eq_div)
qed

section \<open>The loop of the multiple mask\<close>

lemma map2_same: "map2 h (map f xs) (map g xs) = map (\<lambda>x. h (f x) (g x)) xs"
  by (induction xs) simp_all

lemma logical_and_map2d:
  "logical_and (map2d f xs) (map2d g xs) = map2d (\<lambda>c. f c \<and> g c) xs"
  unfolding logical_and_def map2d_def by (simp only: map2_same)

lemma logical_or_map2d:
  "logical_or (map2d f xs) (map2d g xs) = map2d (\<lambda>c. f c \<or> g c) xs"
  unfolding logical_or_def map2d_def by (simp only: map2_same)

text \<open>
  The loop folds every task into the mask, whatever its level: a cell passes the exclusive
  fold iff it passes the start mask and every task, the inclusive fold iff it passes the
  start mask or some task.
\<close>

lemma multi_loop_eval:
  assumes "\<forall>t\<in>set tasks. 0 \<le> fst t \<and> fits (dtype band) (push_bit (nat (fst t)) 3)"
  shows "multi_loop band inclusive tasks (map2d f (cells band)) =
         Inr (map2d (\<lambda>c. if inclusive then f c \<or> (\<exists>t\<in>set tasks. task_holds t c)
                          else f c \<and> (\<forall>t\<in>set tasks. task_holds t c)) (cells band))"
  using assms
proof (induction tasks arbitrary: f)
  case Nil
  show ?case by simp
next
  case (Cons t ts)
  have t: "0 \<le> fst t" and ft: "fits (dtype band) (push_bit (nat (fst t)) 3)"
    and ts: "\<forall>t\<in>set ts. 0 \<le> fst t \<and> fits (dtype band) (push_bit (nat (fst t)) 3)"
    using Cons.prems by simp_all
  have m: "LandsatMasker_get_mask band (fst t) 3 (fst (snd t)) (snd (snd t)) =
           Inr (map2d (task_holds t) (cells band))"
    unfolding task_holds_def [abs_def] landsat_get_mask_eval [OF t] using ft by simp
  show ?case
  proof (cases inclusive)
    case True
    have "map2d (\<lambda>c. (f c \<or> task_holds t c) \<or> (\<exists>t\<in>set ts. task_holds t c)) (cells band) =
          map2d (\<lambda>c. f c \<or> (\<exists>t\<in>set (t # ts). task_holds t c)) (cells band)"
      by (simp add: disj_assoc)
    then show ?thesis
      using True m Cons.IH [OF ts, of "\<lambda>c. f c \<or> task_holds t c"]
      by (simp add: logical_or_map2d)
  next
    case False
    have "map2d (\<lambda>c. (f c \<and> task_holds t c) \<and> (\<forall>t\<in>set ts. task_holds t c)) (cells band) =
          map2d (\<lambda>c. f c \<and> (\<forall>t\<in>set (t # ts). task_holds t c)) (cells band)"
      by (simp add: conj_assoc)
    then show ?thesis
      using False m Cons.IH [OF ts, of "\<lambda>c. f c \<and> task_holds t c"]
      by (simp add: logical_and_map2d)
  qed
qed

text \<open>The result of the loop depends on the set of its tasks, not on their order.\<close>

lemma multi_loop_order:
  assumes "\<forall>t\<in>set tasks. 0 \<le> fst t \<and> fits (dtype band) (push_bit (nat (fst t)) 3)"
    and "set tasks' = set tasks"
  shows "multi_loop band inclusive tasks' (map2d f (cells band)) =
         multi_loop band inclusive tasks (map2d f (cells band))"
proof -
  have "\<forall>t\<in>set tasks'. 0 \<le> fst t \<and> fits (dtype band) (push_bit (nat (fst t)) 3)"
    using assms by simp
  then show ?thesis
    using assms by (simp add: multi_loop_eval)
qed

lemma task_holds_none: "task_holds (p, none, cum) c = cum"
  by (simp add: task_holds_def none_never_equal none_always_below)

lemma get_multi_mask_eval:
  assumes "fits (dtype band) 49152"
  shows "get_multi_mask band cloud cloud_cum cirrus cirrus_cum snow snow_cum veg veg_cum
       water water_cum inclusive =
     Inr (map2d (\<lambda>c. if (if inclusive
                 then c < 0 \<or> (\<exists>t\<in>set [(8, veg, veg_cum), (10, snow, snow_cum),
                        (12, cirrus, cirrus_cum), (14, cloud, cloud_cum),
                        (4, water, water_cum)]. task_holds t c)
                 else 0 \<le> c \<and> (\<forall>t\<in>set [(8, veg, veg_cum), (10, snow, snow_cum),
                        (12, cirrus, cirrus_cum), (14, cloud, cloud_cum),
                        (4, water, water_cum)]. task_holds t c))
               then 1 else 0) (cells band))"
proof -
  let ?tasks = "[(8, veg, veg_cum), (10, snow, snow_cum), (12, cirrus, cirrus_cum),
                 (14, cloud, cloud_cum), (4::int, water, water_cum)]"
  have f: "fits (dtype band) 768" "fits (dtype band) 3072" "fits (dtype band) 12288"
    "fits (dtype band) 48"
    using assms by (auto intro: fits_mono)
  have p: "\<forall>t\<in>set ?tasks. 0 \<le> fst t \<and> fits (dtype band) (push_bit (nat (fst t)) 3)"
    using assms f by simp
  show ?thesis
    unfolding get_multi_mask_def less_int_def greater_equal_int_def
    by (cases inclusive)
      (simp_all only: multi_loop_eval [OF p] map_result_def astype_int_def map2d_map2d
        sum.case if_True if_False)
qed

text \<open>
  One condition left at \<open>none\<close> and not cumulative, here the vegetation, empties the
  exclusive mask.
\<close>

lemma multi_mask_exclusive_none:
  assumes "fits (dtype band) 49152"
  shows "get_multi_mask band cloud cloud_cum cirrus cirrus_cum snow snow_cum none False
     water water_cum False = Inr (map2d (\<lambda>c. 0) (cells band))"
  by (simp add: get_multi_mask_eval [OF assms] task_holds_none)

lemma cloud_high_cell:
  "get_cloud_mask \<lparr>dtype = Int64, cells = [[0xC000]]\<rparr> high False = Inr [[1]]"
  by (simp add: get_cloud_mask_def landsat_get_mask_eval fits_def map_result_def
      astype_int_def map2d_def high_def drop_bit_eq_div)

section \<open>Conditions at the sentinel level in the multiple mask\<close>

text \<open>
  C3. The claim: a condition whose level is \<open>none\<close> is skipped, so that
  \<open>get_multi_mask\<close> with all five conditions at \<open>none\<close> returns the mask that is
  true everywhere when not inclusive. The loop skips nothing: with all five conditions at
  \<open>none\<close>, not cumulative and not inclusive, the mask is 0 at every cell.
\<close>

theorem multi_mask_all_none:
  "get_multi_mask \<lparr>dtype = Int64, cells = [[0, 0xC000]]\<rparr>
     none False none False none False none False none False False = Inr [[0, 0]]"
  by (simp add: multi_mask_exclusive_none fits_def map2d_def)

text \<open>
  C6. The claim: the result of \<open>get_multi_mask\<close> is the fold of the masks of the
  conditions that are not skipped. With the cloud at \<open>high\<close> and the other four
  conditions at \<open>none\<close>, not inclusive, the only condition asked for is the cloud, whose
  mask holds 1 at the cell 0xC000; the multiple mask holds 0 there.
\<close>

theorem multi_mask_cloud_only:
  "get_multi_mask \<lparr>dtype = Int64, cells = [[0xC000]]\<rparr>
     high False none False none False none False none False False = Inr [[0]]
   \<and> get_cloud_mask \<lparr>dtype = Int64, cells = [[0xC000]]\<rparr> high False = Inr [[1]]"
  by (simp add: multi_mask_exclusive_none cloud_high_cell fits_def map2d_def)

section \<open>Errors\<close>

text \<open>
  C7, as stated: a query with an unknown condition name raises UnknownConditionError and a
  query with a bit width of zero raises ConfigurationError. The program has neither class:
  the command line raises a plain Exception for an unknown target, and
  \<open>Masker.get_mask\<close> with a bit width of zero raises the ValueError of
  \<open>int('', 2)\<close>.
\<close>

theorem error_classes_counterexample:
  "main \<lparr>source = Some ''landsat'', input_path = Some ''qa.tif'', output_path = Some ''out.tif'',
          confidence = Some ''high'', target = Some ''fog'', quality = None\<rparr>
        \<lparr>dtype = Int64, cells = [[0]]\<rparr>
     = Inl (PyException ''Masker type fog is unrecongized.'')
   \<and> exception_class (PyException ''Masker type fog is unrecongized.'') \<noteq> ''UnknownConditionError''
   \<and> get_mask \<lparr>dtype = Int64, cells = [[0]]\<rparr> 0 0 (IntV 0) = Inl ValueError
   \<and> exception_class ValueError \<noteq> ''ConfigurationError''"
  by (simp add: main_def fmt_s_def get_mask_def int_base2_Nil)

text \<open>
  C7, amended: a Landsat query on the command line whose target is none of cloud, cirrus,
  water, vegetation and snow raises an Exception with the message that the masker type is
  not recognised, and \<open>Masker.get_mask\<close> with a bit width of zero raises ValueError; in
  both cases no mask is returned.
\<close>

theorem query_errors:
  assumes "source a = Some ''landsat''"
    and "target a \<notin> {Some ''cloud'', Some ''cirrus'', Some ''water'', Some ''vegetation'',
           Some ''snow''}"
  shows "main a band = Inl (PyException (''Masker type '' @ fmt_s (target a) @ '' is unrecongized.''))
         \<and> get_mask band bit_pos 0 val = Inl ValueError"
  using assms by (simp add: main_def get_mask_def int_base2_Nil)

theorem query_errors_witness:
  "main \<lparr>source = Some ''landsat'', input_path = Some ''qa.tif'', output_path = Some ''out.tif'',
          confidence = Some ''high'', target = Some ''fog'', quality = None\<rparr>
        \<lparr>dtype = UInt16, cells = [[1, 2]]\<rparr>
     = Inl (PyException ''Masker type fog is unrecongized.'')
   \<and> get_mask \<lparr>dtype = UInt16, cells = [[1, 2]]\<rparr> 3 0 (IntV 1) = Inl ValueError"
  using query_errors [of "\<lparr>source = Some ''landsat'', input_path = Some ''qa.tif'',
          output_path = Some ''out.tif'', confidence = Some ''high'', target = Some ''fog'',
          quality = None\<rparr>" "\<lparr>dtype = UInt16, cells = [[1, 2]]\<rparr>" 3 "IntV 1"]
  by (simp add: fmt_s_def)

section \<open>The methods on the state\<close>

lemma keeps_refl: "keeps s s"
  by (simp add: keeps_def)

lemma keeps_trans: "keeps s s' \<Longrightarrow> keeps s' s'' \<Longrightarrow> keeps s s''"
  by (auto simp add: keeps_def)

lemma keeps_new_int: "keeps s (snd (new_int_array x s))"
  by (simp add: keeps_def new_int_array_def)

lemma keeps_new_bool: "keeps s (snd (new_bool_array x s))"
  by (simp add: keeps_def new_bool_array_def)

lemma keeps_band:
  assumes "keeps s s'" and "band_data s < int_count s"
  shows "band_data s' < int_count s'" and "int_arrays s' (band_data s') = int_arrays s (band_data s)"
  using assms by (auto simp add: keeps_def)

text \<open>
  Each method, run statement by statement on a state whose band exists, keeps the state
  and returns what the definition on the band alone computes.
\<close>

lemma landsat_method_post:
  assumes "band_data s < int_count s"
  shows "bool_post s (landsat_get_mask_method bit_loc bit_len v cumulative s)
           (LandsatMasker_get_mask (int_arrays s (band_data s)) bit_loc bit_len v cumulative)"
  using assms
  by (auto simp add: landsat_get_mask_method_def LandsatMasker_get_mask_def seq_def
      and_op_def ge_op_def eq_op_def new_int_array_def new_bool_array_def bool_post_def
      keeps_def split: sum.splits)

lemma get_mask_method_post:
  assumes "band_data s < int_count s"
  shows "int_post s (get_mask_method bit_pos bit_len val s)
           (get_mask (int_arrays s (band_data s)) bit_pos bit_len val)"
  using assms
  by (auto simp add: get_mask_method_def get_mask_def seq_def
      and_op_def eq_op_def astype_int_op_def new_int_array_def new_bool_array_def int_post_def
      keeps_def split: sum.splits target.splits)

lemma astype_after:
  assumes "bool_post s r v"
  shows "int_post s (seq r astype_int_op) (map_result astype_int v)"
  using assms
  by (cases r)
    (auto simp add: seq_def astype_int_op_def new_int_array_def bool_post_def int_post_def
      keeps_def map_result_def split: sum.splits)

lemma astype_copy_after:
  assumes "int_post s r v"
  shows "int_post s (seq r astype_int_copy_op) v"
  using assms
  by (cases r)
    (auto simp add: seq_def astype_int_copy_op_def new_int_array_def int_post_def
      keeps_def split: sum.splits)

lemma logical_op_post:
  assumes "a < bool_count s" and "b < bool_count s"
  shows "bool_post s (logical_or_op a b s) (Inr (logical_or (bool_arrays s a) (bool_arrays s b)))"
    and "bool_post s (logical_and_op a b s)
           (Inr (logical_and (bool_arrays s a) (bool_arrays s b)))"
  by (simp_all add: logical_or_op_def logical_and_op_def new_bool_array_def bool_post_def
      keeps_def)

lemma multi_loop_method_post:
  assumes "band_data s < int_count s" and "fm < bool_count s"
  shows "bool_post s (multi_loop_method inclusive tasks fm s)
           (multi_loop (int_arrays s (band_data s)) inclusive tasks (bool_arrays s fm))"
  using assms
proof (induction tasks arbitrary: fm s)
  case Nil
  then show ?case by (simp add: bool_post_def keeps_refl)
next
  case (Cons t ts)
  let ?band = "int_arrays s (band_data s)"
  obtain r1 s1 where step: "landsat_get_mask_method (fst t) 3 (fst (snd t)) (snd (snd t)) s = (r1, s1)"
    by (cases "landsat_get_mask_method (fst t) 3 (fst (snd t)) (snd (snd t)) s") simp
  have p1: "bool_post s (r1, s1) (LandsatMasker_get_mask ?band (fst t) 3 (fst (snd t)) (snd (snd t)))"
    using landsat_method_post [OF Cons.prems(1), of "fst t" 3 "fst (snd t)" "snd (snd t)"] step
    by simp
  then have k1: "keeps s s1" by (simp add: bool_post_def)
  show ?case
  proof (cases r1)
    case (Inl e)
    then show ?thesis using p1 step by (simp add: bool_post_def)
  next
    case (Inr msk)
    then have msk: "msk < bool_count s1"
      and mv: "LandsatMasker_get_mask ?band (fst t) 3 (fst (snd t)) (snd (snd t))
                 = Inr (bool_arrays s1 msk)"
      using p1 by (simp_all add: bool_post_def)
    have fm1: "fm < bool_count s1" and fmv: "bool_arrays s1 fm = bool_arrays s fm"
      using k1 Cons.prems(2) by (auto simp add: keeps_def)
    have b1: "band_data s1 < int_count s1" and bv: "int_arrays s1 (band_data s1) = ?band"
      using k1 Cons.prems(1) by (auto simp add: keeps_def)
    let ?op = "if inclusive then logical_or_op fm msk s1 else logical_and_op fm msk s1"
    let ?val = "if inclusive then logical_or (bool_arrays s fm) (bool_arrays s1 msk)
                else logical_and (bool_arrays s fm) (bool_arrays s1 msk)"
    obtain r2 s2 where step2: "?op = (r2, s2)" by (cases ?op) simp
    have p2: "bool_post s1 (r2, s2) (Inr ?val)"
      using logical_op_post [OF fm1 msk] step2 fmv by (cases inclusive) simp_all
    then obtain fm' where r2: "r2 = Inr fm'" and fm': "fm' < bool_count s2"
      and fv: "bool_arrays s2 fm' = ?val"
      by (cases r2) (auto simp add: bool_post_def)
    have k2: "keeps s1 s2" using p2 by (simp add: bool_post_def)
    have b2: "band_data s2 < int_count s2" and bv2: "int_arrays s2 (band_data s2) = ?band"
      using k2 b1 bv by (auto simp add: keeps_def)
    have ih: "bool_post s2 (multi_loop_method inclusive ts fm' s2)
                (multi_loop ?band inclusive ts ?val)"
      using Cons.IH [OF b2 fm'] bv2 fv by simp
    have k: "keeps s (snd (multi_loop_method inclusive ts fm' s2))"
      using ih k1 k2 by (auto simp add: bool_post_def intro: keeps_trans)
    show ?thesis
      using step Inr step2 r2 mv ih k
      by (cases inclusive) (simp_all add: bool_post_def)
  qed
qed

lemma start_mask_post:
  shows "bool_post s (lt_op a k s) (Inr (less_int (int_arrays s a) k))"
    and "bool_post s (ge_op a k s) (Inr (greater_equal_int (int_arrays s a) k))"
  by (simp_all add: lt_op_def ge_op_def new_bool_array_def bool_post_def keeps_def)

lemma multi_mask_method_body_post:
  assumes "band_data s < int_count s"
  shows "bool_post s
           (seq (if inclusive then lt_op (band_data s) 0 s else ge_op (band_data s) 0 s)
              (multi_loop_method inclusive tasks))
           (multi_loop (int_arrays s (band_data s)) inclusive tasks
              (if inclusive then less_int (int_arrays s (band_data s)) 0
               else greater_equal_int (int_arrays s (band_data s)) 0))"
proof -
  let ?band = "int_arrays s (band_data s)"
  let ?op = "if inclusive then lt_op (band_data s) 0 s else ge_op (band_data s) 0 s"
  let ?val = "if inclusive then less_int ?band 0 else greater_equal_int ?band 0"
  obtain r1 s1 where step: "?op = (r1, s1)" by (cases ?op) simp
  have p1: "bool_post s (r1, s1) (Inr ?val)"
    using start_mask_post [of s "band_data s" 0] step by (cases inclusive) simp_all
  then obtain fm where r1: "r1 = Inr fm" and fm: "fm < bool_count s1"
    and fv: "bool_arrays s1 fm = ?val"
    by (cases r1) (auto simp add: bool_post_def)
  have k1: "keeps s s1" using p1 by (simp add: bool_post_def)
  have b1: "band_data s1 < int_count s1" and bv: "int_arrays s1 (band_data s1) = ?band"
    using k1 assms by (auto simp add: keeps_def)
  have l: "bool_post s1 (multi_loop_method inclusive tasks fm s1)
             (multi_loop ?band inclusive tasks ?val)"
    using multi_loop_method_post [OF b1 fm, of inclusive tasks] bv fv by simp
  have k: "keeps s (snd (multi_loop_method inclusive tasks fm s1))"
    using l k1 by (auto simp add: bool_post_def intro: keeps_trans)
  show ?thesis
    using step r1 l k by (simp add: seq_def bool_post_def)
qed

lemma get_multi_mask_method_post:
  assumes "band_data s < int_count s"
  shows "int_post s
           (get_multi_mask_method cloud cloud_cum cirrus cirrus_cum snow snow_cum veg veg_cum
              water water_cum inclusive s)
           (get_multi_mask (int_arrays s (band_data s)) cloud cloud_cum cirrus cirrus_cum
              snow snow_cum veg veg_cum water water_cum inclusive)"
proof -
  let ?tasks = "[(8, veg, veg_cum), (10, snow, snow_cum), (12, cirrus, cirrus_cum),
                 (14, cloud, cloud_cum), (4::int, water, water_cum)]"
  have m: "get_multi_mask_method cloud cloud_cum cirrus cirrus_cum snow snow_cum veg veg_cum
              water water_cum inclusive s =
           seq (seq (if inclusive then lt_op (band_data s) 0 s else ge_op (band_data s) 0 s)
                  (multi_loop_method inclusive ?tasks)) astype_int_op"
    unfolding get_multi_mask_method_def
    by (simp add: seq_def split: prod.splits sum.splits)
  show ?thesis
    unfolding m get_multi_mask_def
    by (rule astype_after) (rule multi_mask_method_body_post [OF assms])
qed

lemma getters_method_post:
  assumes "band_data s < int_count s"
  shows "int_post s (get_cloud_mask_method conf cumulative s)
           (get_cloud_mask (int_arrays s (band_data s)) conf cumulative)"
    and "int_post s (get_cirrus_mask_method conf cumulative s)
           (get_cirrus_mask (int_arrays s (band_data s)) conf cumulative)"
    and "int_post s (get_veg_mask_method conf cumulative s)
           (get_veg_mask (int_arrays s (band_data s)) conf cumulative)"
    and "int_post s (get_water_mask_method conf cumulative s)
           (get_water_mask (int_arrays s (band_data s)) conf cumulative)"
    and "int_post s (get_snow_mask_method conf cumulative s)
           (get_snow_mask (int_arrays s (band_data s)) conf cumulative)"
  unfolding get_cloud_mask_method_def get_cirrus_mask_method_def get_veg_mask_method_def
    get_water_mask_method_def get_snow_mask_method_def get_cloud_mask_def get_cirrus_mask_def
    get_veg_mask_def get_water_mask_def get_snow_mask_def
  by (rule astype_after, rule landsat_method_post [OF assms])+

lemma get_qa_mask_method_post:
  assumes "band_data s < int_count s"
  shows "int_post s (get_qa_mask_method q s) (get_qa_mask (int_arrays s (band_data s)) q)"
  unfolding get_qa_mask_method_def get_qa_mask_def
  by (rule astype_copy_after) (rule get_mask_method_post [OF assms])

lemma int_post_returned:
  assumes "int_post s r v"
  shows "keeps s (snd (as_ref IntArray r)) \<and> returned (as_ref IntArray r) = map_result Ints v"
  using assms
  by (auto simp add: int_post_def as_ref_def returned_def map_result_def split: sum.splits)

lemma bool_post_returned:
  assumes "bool_post s r v"
  shows "keeps s (snd (as_ref BoolArray r)) \<and> returned (as_ref BoolArray r) = map_result Bools v"
  using assms
  by (auto simp add: bool_post_def as_ref_def returned_def map_result_def split: sum.splits)

lemma call_post:
  assumes "band_data s < int_count s"
  shows "keeps s (snd (call q s)) \<and> returned (call q s) = mask_of q (int_arrays s (band_data s))"
proof (cases q)
  case (Get_mask p l v)
  then show ?thesis using int_post_returned [OF get_mask_method_post [OF assms]] by simp
next
  case (Get_cloud_mask c cum)
  then show ?thesis using int_post_returned [OF getters_method_post(1) [OF assms]] by simp
next
  case (Get_cirrus_mask c cum)
  then show ?thesis using int_post_returned [OF getters_method_post(2) [OF assms]] by simp
next
  case (Get_veg_mask c cum)
  then show ?thesis using int_post_returned [OF getters_method_post(3) [OF assms]] by simp
next
  case (Get_water_mask c cum)
  then show ?thesis using int_post_returned [OF getters_method_post(4) [OF assms]] by simp
next
  case (Get_snow_mask c cum)
  then show ?thesis using int_post_returned [OF getters_method_post(5) [OF assms]] by simp
next
  case Get_fill_mask
  then show ?thesis
    using bool_post_returned [OF landsat_method_post [OF assms]]
    by (simp add: get_fill_mask_method_def get_fill_mask_def)
next
  case (Get_multi_mask x1 x2 x3 x4 x5 x6 x7 x8 x9 x10 x11)
  then show ?thesis using int_post_returned [OF get_multi_mask_method_post [OF assms]] by simp
next
  case (Get_qa_mask v)
  then show ?thesis using int_post_returned [OF get_qa_mask_method_post [OF assms]] by simp
qed

lemma calls_keep:
  assumes "band_data s < int_count s"
  shows "keeps s (calls qs s)"
  using assms
proof (induction qs arbitrary: s)
  case Nil
  show ?case by (simp add: keeps_refl)
next
  case (Cons q qs)
  have k: "keeps s (snd (call q s))" using call_post [OF Cons.prems] by simp
  have "keeps (snd (call q s)) (calls qs (snd (call q s)))"
    using Cons.IH keeps_band(1) [OF k Cons.prems] by simp
  then show ?case using k by (auto intro: keeps_trans)
qed

section \<open>Queries leave the masker and its band as they are\<close>

text \<open>
  C8. On a state whose band exists, every query keeps the state: the attributes of the
  masker are the same after the call, and every array that existed, the band among them,
  has the same type and cells. The same query called again returns the same mask. The same
  holds after any sequence of queries: the band is as it was loaded, and every query
  returns the mask it returned before the sequence.
\<close>

theorem queries_pure:
  assumes "band_data s < int_count s"
  shows "keeps s (snd (call q s))
    \<and> file_path (snd (call q s)) = file_path s
    \<and> band_data (snd (call q s)) = band_data s
    \<and> int_arrays (snd (call q s)) (band_data s) = int_arrays s (band_data s)
    \<and> returned (call q (snd (call q s))) = returned (call q s)
    \<and> keeps s (calls qs s)
    \<and> file_path (calls qs s) = file_path s
    \<and> band_data (calls qs s) = band_data s
    \<and> int_arrays (calls qs s) (band_data s) = int_arrays s (band_data s)
    \<and> returned (call q (calls qs s)) = returned (call q s)"
proof -
  have k1: "keeps s (snd (call q s))" using call_post [OF assms] by simp
  have k2: "keeps s (calls qs s)" by (rule calls_keep [OF assms])
  have r1: "returned (call q (snd (call q s))) = returned (call q s)"
    using call_post [OF keeps_band(1) [OF k1 assms], of q] keeps_band(2) [OF k1 assms]
      call_post [OF assms, of q] by simp
  have r2: "returned (call q (calls qs s)) = returned (call q s)"
    using call_post [OF keeps_band(1) [OF k2 assms], of q] keeps_band(2) [OF k2 assms]
      call_post [OF assms, of q] by simp
  show ?thesis
    using k1 k2 r1 r2 assms by (auto simp add: keeps_def)
qed

theorem queries_pure_witness:
  "returned (call (Get_cloud_mask high False)
      (snd (call (Get_cloud_mask high False)
        \<lparr>file_path = None, band_data = 0,
           int_arrays = (\<lambda>a. \<lparr>dtype = UInt16, cells = [[0, 0xC000]]\<rparr>),
           bool_arrays = (\<lambda>a. []), int_count = 1, bool_count = 0\<rparr>)))
     = Inr (Ints [[0, 1]])
   \<and> int_arrays (calls [Get_fill_mask, Get_cloud_mask low True]
        \<lparr>file_path = None, band_data = 0,
           int_arrays = (\<lambda>a. \<lparr>dtype = UInt16, cells = [[0, 0xC000]]\<rparr>),
           bool_arrays = (\<lambda>a. []), int_count = 1, bool_count = 0\<rparr>) 0
     = \<lparr>dtype = UInt16, cells = [[0, 0xC000]]\<rparr>"
proof -
  let ?s = "\<lparr>file_path = None, band_data = 0,
           int_arrays = (\<lambda>a. \<lparr>dtype = UInt16, cells = [[0, 0xC000]]\<rparr>),
           bool_arrays = (\<lambda>a. []), int_count = 1, bool_count = 0\<rparr>"
  have b: "band_data ?s < int_count ?s" by simp
  have r: "returned (call (Get_cloud_mask high False) ?s) = Inr (Ints [[0, 1]])"
    using call_post [OF b, of "Get_cloud_mask high False"]
    by (simp add: get_cloud_mask_def landsat_get_mask_eval fits_def map_result_def
        astype_int_def map2d_def high_def drop_bit_eq_div)
  show ?thesis
    using queries_pure [OF b, of "Get_cloud_mask high False"
        "[Get_fill_mask, Get_cloud_mask low True]"] r
    by simp
qed

end
